theory Spec2Isabelle
  imports Complex_Main "HOL-Library.AList"
begin

section \<open>go-audiosprite: the sprite assembly of \<open>src/main.go\<close>\<close>

text \<open>
  \<open>src/main.go\<close> holds two programs, one after the other. The first (lines 1 to 143)
  concatenates WAV files and stops on a sample rate mismatch; the second (lines 144 to 333)
  resamples a mismatching file with ffmpeg through a temporary file and can convert the
  result to mp3 or ogg. Both are embedded below: the first as \<open>main\<close>, the second as
  \<open>main2\<close>. The loop body's arithmetic (lines 96 to 106, again at 236 to 246) is the same
  text in both and is embedded once, as \<open>record_clip\<close>.

  What lies outside the repository is a parameter of the model (the record \<open>system\<close>):
  glob expansion, the WAV decoder, file creation and writing, and ffmpeg.
  The model starts after \<open>flag.Parse\<close>: its inputs are the positional arguments, the
  \<open>-o\<close> base name and the set of names that lines 54 to 62 put into \<open>loops\<close>.
\<close>

subsection \<open>Data\<close>

text \<open>
  \<open>float64\<close>: the values a division of two converted integers can produce. A finite
  quotient is kept as the exact real number (the rounding of the conversion and of the
  division is not modelled; it is a function of the two integers, so equal operands give
  equal results). Dividing by zero does not panic on floats: it gives NaN or an infinity.
\<close>

datatype float64 = Fin real | PosInf | NegInf | NaN

definition float_div :: "int \<Rightarrow> int \<Rightarrow> float64" where
  \<comment> \<open>\<open>float64(a) / float64(b)\<close>\<close>
  "float_div a b =
     (if b \<noteq> 0 then Fin (real_of_int a / real_of_int b)
      else if a = 0 then NaN
      else if 0 < a then PosInf else NegInf)"

definition is_Fin :: "float64 \<Rightarrow> bool" where
  "is_Fin x = (case x of Fin _ \<Rightarrow> True | _ \<Rightarrow> False)"

definition go_quot :: "int \<Rightarrow> int \<Rightarrow> int" where
  \<comment> \<open>Go's integer \<open>a / b\<close> for \<open>b \<noteq> 0\<close>: the quotient truncated toward zero.
      (The operands here are a slice length and a channel count, so the quotient is no
      larger than the slice length and the 64-bit range is never left.)\<close>
  "go_quot a b = sgn a * sgn b * (\<bar>a\<bar> div \<bar>b\<bar>)"

text \<open>\<open>audio.Format\<close>, \<open>audio.IntBuffer\<close> of go-audio, and the two structs of lines 20 to 29.\<close>

record Format =
  NumChannels :: int
  SampleRate :: int

record IntBuffer =
  Format :: Format
  Data :: "int list"
  SourceBitDepth :: int

record SpriteMapEntry =
  Start :: float64
  End :: float64
  Loop :: bool

record SpriteJSON =
  Resources :: "string list"
  Spritemap :: "(string \<times> SpriteMapEntry) list"

subsection \<open>Paths\<close>

text \<open>
  \<open>filepath.Base\<close> and \<open>filepath.Ext\<close> of Go's standard library, for the separator \<open>/\<close>
  (no volume names). \<open>Base\<close>: the empty path gives \<open>.\<close>; trailing slashes are dropped;
  the last element is returned, or \<open>/\<close> when nothing is left. \<open>Ext\<close>: scanning from the
  end and stopping at a separator, the suffix that starts at the first dot met.
\<close>

definition is_sep :: "char \<Rightarrow> bool" where
  "is_sep c = (c = CHR ''/'')"

definition filepath_Base :: "string \<Rightarrow> string" where
  "filepath_Base path =
     (if path = [] then ''.''
      else let stripped = rev (dropWhile is_sep (rev path));
               elem = rev (takeWhile (\<lambda>c. \<not> is_sep c) (rev stripped))
           in if elem = [] then ''/'' else elem)"

definition filepath_Ext :: "string \<Rightarrow> string" where
  "filepath_Ext path =
     (let scanned = takeWhile (\<lambda>c. \<not> is_sep c \<and> c \<noteq> CHR ''.'') (rev path)
      in case drop (length scanned) (rev path) of
           [] \<Rightarrow> []
         | c # _ \<Rightarrow> if c = CHR ''.'' then c # rev scanned else [])"

definition fileKey :: "string \<Rightarrow> string" where
  \<comment> \<open>lines 139 to 143\<close>
  "fileKey path =
     (let base = filepath_Base path; ext = filepath_Ext base
      in take (length base - length ext) base)"

subsection \<open>The environment and the ways the program stops\<close>

text \<open>
  \<open>glob\<close> is \<open>filepath.Glob\<close> (\<open>None\<close>: a malformed pattern). \<open>decode\<close> is what opening and
  decoding a path gives when the program reads it (\<open>os.Open\<close>, \<open>IsValidFile\<close>,
  \<open>FullPCMBuffer\<close>; the decoder always allocates the \<open>Format\<close> it returns, which is therefore
  a value here and not a pointer). \<open>create\<close>, \<open>write_samples\<close> and \<open>write_file\<close> say whether
  \<open>os.Create\<close>, the encoder's \<open>Write\<close> and the writing of the JSON file succeed. For the second
  program, \<open>lower\<close> is \<open>strings.ToLower\<close>, and \<open>ffmpeg\<close> says whether the ffmpeg command
  with the given arguments exits with status 0.
\<close>

datatype decode_error = OpenError | InvalidFile | PCMError

datatype fatal =
    InvalidPattern string
  | NoFilesMatched string
  | UsageExit
  | FailedToOpen string
  | NotValidWAV string
  | FailedToDecode string
  | SampleRateMismatch string int int
  | FailedToCreateWAV
  | FailedToWriteSamples
  | FailedToMarshalJSON
  | FailedToWriteJSON
  | RuntimePanic
  | UnsupportedFormat string
  | ResampleFailed string
  | FailedToDecodeResampled string
  | ConvertFailed string

datatype event =
    Create string
  | NewEncoder string int int int int
  | EncoderWrite IntBuffer
  | WriteFile string SpriteJSON
  | WriteEmpty string
  | Resample string int string
  | Convert string string string
  | Remove string

record system =
  glob :: "string \<Rightarrow> string list option"
  decode :: "string \<Rightarrow> decode_error + IntBuffer"
  create :: "string \<Rightarrow> bool"
  write_samples :: "string \<Rightarrow> IntBuffer \<Rightarrow> bool"
  write_file :: "string \<Rightarrow> bool"
  lower :: "string \<Rightarrow> string"
  ffmpeg :: "string list \<Rightarrow> bool"

text \<open>
  A run ends with \<open>exit = None\<close> (status 0) or with the fatal message it stopped on
  (\<open>log.Fatalf\<close> and \<open>os.Exit(1)\<close>, or a runtime panic); \<open>effects\<close> lists, in order, what it
  did to the file system.
\<close>

record run =
  exit :: "fatal option"
  effects :: "event list"

subsection \<open>The first program (lines 31 to 137)\<close>

text \<open>Lines 37 to 47: expanding the patterns.\<close>

fun collect_inputs :: "system \<Rightarrow> string list \<Rightarrow> string list \<Rightarrow> fatal + string list" where
  "collect_inputs sys [] inputs = Inr inputs"
| "collect_inputs sys (pattern # rest) inputs =
     (case glob sys pattern of
        None \<Rightarrow> Inl (InvalidPattern pattern)
      | Some matched \<Rightarrow>
          if length matched = 0 then Inl (NoFilesMatched pattern)
          else collect_inputs sys rest (inputs @ matched))"

text \<open>Lines 65 to 68: the variables the loop updates.\<close>

record state =
  outBuf :: "IntBuffer option"
  sampleRate :: int
  currentSample :: int
  spritemap :: "(string \<times> SpriteMapEntry) list"

definition init_state :: state where
  "init_state = \<lparr>outBuf = None, sampleRate = 0, currentSample = 0, spritemap = []\<rparr>"

text \<open>Lines 71 to 83: open, validate and decode one file.\<close>

definition load :: "system \<Rightarrow> string \<Rightarrow> fatal + IntBuffer" where
  "load sys infile =
     (case decode sys infile of
        Inl OpenError \<Rightarrow> Inl (FailedToOpen infile)
      | Inl InvalidFile \<Rightarrow> Inl (NotValidWAV infile)
      | Inl PCMError \<Rightarrow> Inl (FailedToDecode infile)
      | Inr buf \<Rightarrow> Inr buf)"

text \<open>Lines 85 to 94: the first buffer fixes rate and format; a later one must have the rate.\<close>

definition reference :: "string \<Rightarrow> IntBuffer \<Rightarrow> state \<Rightarrow> fatal + state" where
  "reference infile buf st =
     (if outBuf st = None then
        Inr (st\<lparr>sampleRate := SampleRate (Format buf),
                outBuf := Some \<lparr>Format = Format buf, Data = [],
                                SourceBitDepth = SourceBitDepth buf\<rparr>\<rparr>)
      else if SampleRate (Format buf) \<noteq> sampleRate st then
        Inl (SampleRateMismatch infile (SampleRate (Format buf)) (sampleRate st))
      else Inr st)"

text \<open>
  Lines 96 to 106 (and 236 to 246): append the samples, advance the cursor, store the entry.
  The integer division panics on a zero channel count; \<open>outBuf\<close> is never nil here (a
  nil dereference would panic as well). The map assignment replaces an entry under the
  same key. \<open>loops[name]\<close> is true exactly for the names put into the map.
\<close>

definition record_clip :: "string set \<Rightarrow> string \<Rightarrow> IntBuffer \<Rightarrow> state \<Rightarrow> fatal + state" where
  "record_clip loops infile buf st =
     (let start = float_div (currentSample st) (sampleRate st) in
      case outBuf st of
        None \<Rightarrow> Inl RuntimePanic
      | Some ob \<Rightarrow>
          if NumChannels (Format buf) = 0 then Inl RuntimePanic
          else
            let cur = currentSample st + go_quot (int (length (Data buf))) (NumChannels (Format buf));
                end = float_div cur (sampleRate st);
                key = fileKey infile
            in Inr (st\<lparr>outBuf := Some (ob\<lparr>Data := Data ob @ Data buf\<rparr>),
                       currentSample := cur,
                       spritemap := AList.update key
                          \<lparr>Start = start, End = end, Loop = (filepath_Base infile \<in> loops)\<rparr>
                          (spritemap st)\<rparr>))"

definition loop_body :: "system \<Rightarrow> string set \<Rightarrow> string \<Rightarrow> state \<Rightarrow> fatal + state" where
  "loop_body sys loops infile st =
     (case load sys infile of
        Inl e \<Rightarrow> Inl e
      | Inr buf \<Rightarrow>
          (case reference infile buf st of
             Inl e \<Rightarrow> Inl e
           | Inr st' \<Rightarrow> record_clip loops infile buf st'))"

text \<open>Lines 70 to 107: the loop over the inputs, left at the first fatal error.\<close>

fun combine :: "system \<Rightarrow> string set \<Rightarrow> string list \<Rightarrow> state \<Rightarrow> fatal + state" where
  "combine sys loops [] st = Inr st"
| "combine sys loops (infile # rest) st =
     (case loop_body sys loops infile st of
        Inl e \<Rightarrow> Inl e
      | Inr st' \<Rightarrow> combine sys loops rest st')"

text \<open>
  Lines 109 to 136: the WAV file, then the JSON file. \<open>json.MarshalIndent\<close> refuses a NaN or
  an infinity.
\<close>

definition marshal_ok :: "SpriteJSON \<Rightarrow> bool" where
  "marshal_ok sprite = list_all (\<lambda>(k, e). is_Fin (Start e) \<and> is_Fin (End e)) (Spritemap sprite)"

definition write_outputs :: "system \<Rightarrow> string \<Rightarrow> state \<Rightarrow> run" where
  "write_outputs sys outBase st =
     (let outWav = outBase @ ''.wav'' in
      if \<not> create sys outWav then \<lparr>exit = Some FailedToCreateWAV, effects = []\<rparr>
      else case outBuf st of
        None \<Rightarrow> \<lparr>exit = Some RuntimePanic, effects = [Create outWav]\<rparr>
      | Some ob \<Rightarrow>
          let enc = NewEncoder outWav (sampleRate st) (SourceBitDepth ob) (NumChannels (Format ob)) 1 in
          if \<not> write_samples sys outWav ob then
            \<lparr>exit = Some FailedToWriteSamples, effects = [Create outWav, enc]\<rparr>
          else
            let sprite = \<lparr>Resources = [outWav], Spritemap = spritemap st\<rparr> in
            if \<not> marshal_ok sprite then
              \<lparr>exit = Some FailedToMarshalJSON, effects = [Create outWav, enc, EncoderWrite ob]\<rparr>
            else
              let outJson = outBase @ ''.json'' in
              if \<not> write_file sys outJson then
                \<lparr>exit = Some FailedToWriteJSON, effects = [Create outWav, enc, EncoderWrite ob]\<rparr>
              else
                \<lparr>exit = None,
                 effects = [Create outWav, enc, EncoderWrite ob, WriteFile outJson sprite]\<rparr>)"

definition main :: "system \<Rightarrow> string \<Rightarrow> string set \<Rightarrow> string list \<Rightarrow> run" where
  "main sys outBase loops args =
     (case collect_inputs sys args [] of
        Inl e \<Rightarrow> \<lparr>exit = Some e, effects = []\<rparr>
      | Inr inputs \<Rightarrow>
          if length inputs = 0 then \<lparr>exit = Some UsageExit, effects = []\<rparr>
          else
            (case combine sys loops inputs init_state of
               Inl e \<Rightarrow> \<lparr>exit = Some e, effects = []\<rparr>
             | Inr st \<Rightarrow> write_outputs sys outBase st))"

subsection \<open>The second program (lines 172 to 333)\<close>

text \<open>\<open>fmt.Sprintf\<close> with \<open>%d\<close>: the decimal digits of an integer.\<close>

fun digits :: "nat \<Rightarrow> string" where
  "digits n =
     (if n < 10 then [''0123456789'' ! n]
      else digits (n div 10) @ [''0123456789'' ! (n mod 10)])"

declare digits.simps [simp del]

definition show_int :: "int \<Rightarrow> string" where
  "show_int i = (if i < 0 then CHR ''-'' # digits (nat (- i)) else digits (nat i))"

text \<open>Lines 277 to 288, 303 to 311 and 313 to 327.\<close>

definition decodeWAV :: "system \<Rightarrow> string \<Rightarrow> decode_error + IntBuffer" where
  "decodeWAV sys path = decode sys path"

definition ffmpegResample :: "system \<Rightarrow> string \<Rightarrow> int \<Rightarrow> string option" where
  "ffmpegResample sys input rate =
     (let tmp = input @ ''_resampled_'' @ show_int rate @ ''.wav''
      in if ffmpeg sys [''-y'', ''-i'', input, ''-ar'', show_int rate, tmp] then Some tmp
         else None)"

definition ffmpegConvert :: "system \<Rightarrow> string \<Rightarrow> string \<Rightarrow> string \<Rightarrow> bool" where
  "ffmpegConvert sys input output format =
     (let args = [''-y'', ''-i'', input];
          args' = (if lower sys format = ''mp3''
                   then args @ [''-codec:a'', ''libmp3lame'', ''-qscale:a'', ''2'']
                   else if lower sys format = ''ogg'' then args @ [''-codec:a'', ''libvorbis'']
                   else args)
      in ffmpeg sys (args' @ [output]))"

text \<open>
  Lines 212 to 247: the loop body. Beside the variables of the first program (\<open>targetRate\<close>
  is the field \<open>sampleRate\<close>), the loop carries the paths whose removal has been deferred
  (the latest first) and the effects so far. A result \<open>Inl\<close> is \<open>log.Fatalf\<close>, or the panic
  of \<open>record_clip\<close>.
\<close>

definition loop_body2 ::
  "system \<Rightarrow> string set \<Rightarrow> string \<Rightarrow> state \<Rightarrow> string list \<Rightarrow> event list
     \<Rightarrow> (fatal + state) \<times> string list \<times> event list" where
  "loop_body2 sys loops infile st deferred trace =
     (case decodeWAV sys infile of
        Inl _ \<Rightarrow> (Inl (FailedToDecode infile), deferred, trace)
      | Inr buf \<Rightarrow>
          if outBuf st = None then
            (record_clip loops infile buf
               (st\<lparr>sampleRate := SampleRate (Format buf),
                   outBuf := Some \<lparr>Format = Format buf, Data = [],
                                   SourceBitDepth = SourceBitDepth buf\<rparr>\<rparr>),
             deferred, trace)
          else if SampleRate (Format buf) \<noteq> sampleRate st then
            (case ffmpegResample sys infile (sampleRate st) of
               None \<Rightarrow> (Inl (ResampleFailed infile), deferred, trace)
             | Some tmpResampled \<Rightarrow>
                 let deferred' = tmpResampled # deferred;
                     trace' = trace @ [Resample infile (sampleRate st) tmpResampled]
                 in (case decodeWAV sys tmpResampled of
                       Inl _ \<Rightarrow> (Inl (FailedToDecodeResampled tmpResampled), deferred', trace')
                     | Inr buf' \<Rightarrow> (record_clip loops infile buf' st, deferred', trace')))
          else (record_clip loops infile buf st, deferred, trace))"

fun combine2 ::
  "system \<Rightarrow> string set \<Rightarrow> string list \<Rightarrow> state \<Rightarrow> string list \<Rightarrow> event list
     \<Rightarrow> (fatal + state) \<times> string list \<times> event list" where
  "combine2 sys loops [] st deferred trace = (Inr st, deferred, trace)"
| "combine2 sys loops (infile # rest) st deferred trace =
     (case loop_body2 sys loops infile st deferred trace of
        (Inl e, deferred', trace') \<Rightarrow> (Inl e, deferred', trace')
      | (Inr st', deferred', trace') \<Rightarrow> combine2 sys loops rest st' deferred' trace')"

text \<open>
  How \<open>main\<close> is left. A return, and a panic too, run the deferred calls, the latest
  first. \<open>log.Fatalf\<close> ends the process with \<open>os.Exit(1)\<close>, which runs none of them.
\<close>

definition leave :: "fatal option \<Rightarrow> string list \<Rightarrow> event list \<Rightarrow> run" where
  "leave e deferred trace =
     (if e = None \<or> e = Some RuntimePanic
      then \<lparr>exit = e, effects = trace @ map Remove deferred\<rparr>
      else \<lparr>exit = e, effects = trace\<rparr>)"

text \<open>Lines 290 to 301.\<close>

definition writeWAV ::
  "system \<Rightarrow> string \<Rightarrow> IntBuffer option \<Rightarrow> int \<Rightarrow> fatal option \<times> event list" where
  "writeWAV sys path buf rate =
     (if \<not> create sys path then (Some FailedToCreateWAV, [])
      else case buf of
        None \<Rightarrow> (Some RuntimePanic, [Create path])
      | Some b \<Rightarrow>
          let enc = NewEncoder path rate (SourceBitDepth b) (NumChannels (Format b)) 1 in
          if \<not> write_samples sys path b then (Some FailedToWriteSamples, [Create path, enc])
          else (None, [Create path, enc, EncoderWrite b]))"

text \<open>
  Lines 249 to 274: the WAV file, the conversion, the JSON file (the error of
  \<open>json.MarshalIndent\<close> is dropped, and the file is then written empty).
\<close>

definition write_outputs2 ::
  "system \<Rightarrow> string \<Rightarrow> string \<Rightarrow> state \<Rightarrow> string list \<Rightarrow> event list \<Rightarrow> run" where
  "write_outputs2 sys outBase formatFlag st deferred trace =
     (let tmpWav = outBase @ ''.wav'' in
      case writeWAV sys tmpWav (outBuf st) (sampleRate st) of
        (Some e, evs) \<Rightarrow> leave (Some e) deferred (trace @ evs)
      | (None, evs) \<Rightarrow>
          let trace1 = trace @ evs;
              outAudio = outBase @ ''.'' @ lower sys formatFlag
          in if lower sys formatFlag \<noteq> ''wav'' \<and> \<not> ffmpegConvert sys tmpWav outAudio formatFlag
             then leave (Some (ConvertFailed outAudio)) deferred trace1
             else
               let trace2 = (if lower sys formatFlag \<noteq> ''wav''
                             then trace1 @ [Convert tmpWav outAudio formatFlag, Remove tmpWav]
                             else trace1);
                   sprite = \<lparr>Resources = [outAudio], Spritemap = spritemap st\<rparr>;
                   outJson = outBase @ ''.json''
               in if \<not> write_file sys outJson
                  then leave (Some FailedToWriteJSON) deferred trace2
                  else leave None deferred
                         (trace2 @ [if marshal_ok sprite then WriteFile outJson sprite
                                    else WriteEmpty outJson]))"

definition main2 :: "system \<Rightarrow> string \<Rightarrow> string set \<Rightarrow> string \<Rightarrow> string list \<Rightarrow> run" where
  "main2 sys outBase loops formatFlag args =
     (if lower sys formatFlag \<notin> {''wav'', ''mp3'', ''ogg''}
      then \<lparr>exit = Some (UnsupportedFormat formatFlag), effects = []\<rparr>
      else
        (case collect_inputs sys args [] of
           Inl e \<Rightarrow> \<lparr>exit = Some e, effects = []\<rparr>
         | Inr inputs \<Rightarrow>
             if length inputs = 0 then \<lparr>exit = Some UsageExit, effects = []\<rparr>
             else
               (case combine2 sys loops inputs init_state [] [] of
                  (Inl e, deferred, trace) \<Rightarrow> leave (Some e) deferred trace
                | (Inr st, deferred, trace) \<Rightarrow>
                    write_outputs2 sys outBase formatFlag st deferred trace)))"

subsection \<open>Notions the properties are stated with\<close>

text \<open>
  The frames of a buffer, as line 98 counts them; the cursor before the \<open>i\<close>-th input and
  the entry the \<open>i\<close>-th iteration stores (read back right after it), both by running the
  loop on a prefix of the inputs; the frames of all inputs; and Go's \<open>==\<close> on \<open>float64\<close>,
  which a NaN never satisfies.
\<close>

definition frames :: "IntBuffer \<Rightarrow> int" where
  "frames buf = go_quot (int (length (Data buf))) (NumChannels (Format buf))"

definition cursor_before :: "system \<Rightarrow> string set \<Rightarrow> string list \<Rightarrow> nat \<Rightarrow> int option" where
  "cursor_before sys loops inputs i =
     (case combine sys loops (take i inputs) init_state of
        Inl _ \<Rightarrow> None
      | Inr s \<Rightarrow> Some (currentSample s))"

definition entry_at :: "system \<Rightarrow> string set \<Rightarrow> string list \<Rightarrow> nat \<Rightarrow> SpriteMapEntry option" where
  "entry_at sys loops inputs i =
     (case combine sys loops (take (Suc i) inputs) init_state of
        Inl _ \<Rightarrow> None
      | Inr s \<Rightarrow> map_of (spritemap s) (fileKey (inputs ! i)))"

definition clip_frames :: "system \<Rightarrow> string \<Rightarrow> int" where
  "clip_frames sys f = (case decode sys f of Inl _ \<Rightarrow> 0 | Inr b \<Rightarrow> frames b)"

definition total_frames :: "system \<Rightarrow> string list \<Rightarrow> int" where
  "total_frames sys inputs = sum_list (map (clip_frames sys) inputs)"

definition float_eq :: "float64 \<Rightarrow> float64 \<Rightarrow> bool" where
  "float_eq x y = (x \<noteq> NaN \<and> y \<noteq> NaN \<and> x = y)"

text \<open>
  The three reasons the loop of the first program stops for: the file does not decode, its
  channel count is zero, or its sample rate is not the given one.
\<close>

definition accepted :: "system \<Rightarrow> int \<Rightarrow> string \<Rightarrow> bool" where
  "accepted sys rate f =
     (case decode sys f of
        Inl _ \<Rightarrow> False
      | Inr b \<Rightarrow> NumChannels (Format b) \<noteq> 0 \<and> SampleRate (Format b) = rate)"

text \<open>
  A clip of \<open>ch\<close> channels whose samples make up whole frames, and the number of samples
  of a clip.
\<close>

definition whole_frames :: "system \<Rightarrow> int \<Rightarrow> string \<Rightarrow> bool" where
  "whole_frames sys ch f =
     (case decode sys f of
        Inl _ \<Rightarrow> False
      | Inr b \<Rightarrow> NumChannels (Format b) = ch \<and> ch dvd int (length (Data b)))"

definition clip_samples :: "system \<Rightarrow> string \<Rightarrow> nat" where
  "clip_samples sys f = (case decode sys f of Inl _ \<Rightarrow> 0 | Inr b \<Rightarrow> length (Data b))"

text \<open>
  The temporary paths an effect list shows as produced by a resampling, and the paths it
  shows as removed.
\<close>

definition resampled :: "event list \<Rightarrow> string list" where
  "resampled evs = concat (map (\<lambda>ev. case ev of Resample _ _ tmp \<Rightarrow> [tmp] | _ \<Rightarrow> []) evs)"

definition removed :: "event list \<Rightarrow> string list" where
  "removed evs = concat (map (\<lambda>ev. case ev of Remove path \<Rightarrow> [path] | _ \<Rightarrow> []) evs)"

subsection \<open>A concrete environment\<close>

text \<open>
  Seven files at 4 Hz or 8 Hz: two mono clips of one second and half a second, a clip with
  the name of the first in another directory, a stereo clip of three samples, a clip at
  the double rate with its resampled copy, and a file that is no WAV file. Every
  pattern matches itself, and every write succeeds.
\<close>

definition clip :: "int \<Rightarrow> int \<Rightarrow> int list \<Rightarrow> decode_error + IntBuffer" where
  "clip chans rate samples =
     Inr \<lparr>Format = \<lparr>NumChannels = chans, SampleRate = rate\<rparr>, Data = samples,
          SourceBitDepth = 16\<rparr>"

definition example_files :: "(string \<times> (decode_error + IntBuffer)) list" where
  "example_files =
     [(''a.wav'', clip 1 4 [1, 2, 3, 4]),
      (''b.wav'', clip 1 4 [5, 6]),
      (''dir/a.wav'', clip 1 4 [7, 8]),
      (''stereo.wav'', clip 2 4 [9, 10, 11]),
      (''fast.wav'', clip 1 8 [1, 1, 2, 2]),
      (''fast.wav_resampled_4.wav'', clip 1 4 [1, 2]),
      (''broken.wav'', Inl InvalidFile)]"

definition example_system :: system where
  "example_system =
     \<lparr>glob = (\<lambda>pattern. Some [pattern]),
      decode = (\<lambda>path. case map_of example_files path of None \<Rightarrow> Inl OpenError | Some r \<Rightarrow> r),
      create = (\<lambda>_. True),
      write_samples = (\<lambda>_ _. True),
      write_file = (\<lambda>_. True),
      lower = (\<lambda>s. s),
      ffmpeg = (\<lambda>_. True)\<rparr>"

section \<open>Properties\<close>

subsection \<open>Evaluation and arithmetic\<close>

lemmas model_defs =
  main_def write_outputs_def marshal_ok_def loop_body_def load_def reference_def
  record_clip_def init_state_def fileKey_def filepath_Base_def filepath_Ext_def is_sep_def
  float_div_def go_quot_def is_Fin_def example_system_def example_files_def clip_def Let_def

lemmas model2_defs =
  main2_def write_outputs2_def writeWAV_def leave_def loop_body2_def decodeWAV_def
  ffmpegResample_def ffmpegConvert_def show_int_def digits.simps

lemma go_quot_pos: "0 \<le> a \<Longrightarrow> 0 < b \<Longrightarrow> go_quot a b = a div b"
  by (cases "a = 0") (simp_all add: go_quot_def)

lemma float_div_Fin: "r \<noteq> 0 \<Longrightarrow> float_div c r = Fin (real_of_int c / real_of_int r)"
  by (simp add: float_div_def)

lemma example_first_step:
  "combine example_system loops [''a.wav''] init_state =
     Inr \<lparr>outBuf = Some \<lparr>Format = \<lparr>NumChannels = 1, SampleRate = 4\<rparr>,
                         Data = [1, 2, 3, 4], SourceBitDepth = 16\<rparr>,
          sampleRate = 4, currentSample = 4,
          spritemap = [(''a'', \<lparr>Start = Fin 0, End = Fin 1, Loop = (''a.wav'' \<in> loops)\<rparr>)]\<rparr>"
  by (simp add: model_defs)

lemma example_run:
  "combine example_system loops [''a.wav'', ''b.wav''] init_state =
     Inr \<lparr>outBuf = Some \<lparr>Format = \<lparr>NumChannels = 1, SampleRate = 4\<rparr>,
                         Data = [1, 2, 3, 4, 5, 6], SourceBitDepth = 16\<rparr>,
          sampleRate = 4, currentSample = 6,
          spritemap = [(''a'', \<lparr>Start = Fin 0, End = Fin 1, Loop = (''a.wav'' \<in> loops)\<rparr>),
                       (''b'', \<lparr>Start = Fin 1, End = Fin (3 / 2), Loop = (''b.wav'' \<in> loops)\<rparr>)]\<rparr>"
  by (simp add: model_defs)

lemma example_keys: "distinct (map fileKey [''a.wav'', ''b.wav''])"
  by (simp add: model_defs)

lemma example_whole: "list_all (whole_frames example_system 1) [''a.wav'', ''b.wav'']"
  by (simp add: whole_frames_def model_defs)

lemma example_dup_accepted: "list_all (accepted example_system 4) [''a.wav'', ''b.wav'', ''dir/a.wav'']"
  by (simp add: accepted_def model_defs)

subsection \<open>The loop body and the loop\<close>

lemma load_Inr: "load sys f = Inr buf \<longleftrightarrow> decode sys f = Inr buf"
  by (auto simp: load_def split: sum.splits decode_error.splits)

lemma loop_body_Inr:
  assumes "loop_body sys loops f st = Inr st'"
  obtains buf ob where
    "decode sys f = Inr buf"
    "NumChannels (Format buf) \<noteq> 0"
    "SampleRate (Format buf) = sampleRate st'"
    "outBuf st \<noteq> None \<Longrightarrow> sampleRate st' = sampleRate st"
    "outBuf st' = Some ob"
    "outBuf st = None \<Longrightarrow> Format ob = Format buf \<and> SourceBitDepth ob = SourceBitDepth buf \<and> Data ob = Data buf"
    "\<And>ob0. outBuf st = Some ob0 \<Longrightarrow> Format ob = Format ob0 \<and> SourceBitDepth ob = SourceBitDepth ob0 \<and> Data ob = Data ob0 @ Data buf"
    "currentSample st' = currentSample st + frames buf"
    "spritemap st' = AList.update (fileKey f)
        \<lparr>Start = float_div (currentSample st) (sampleRate st'),
         End = float_div (currentSample st') (sampleRate st'),
         Loop = (filepath_Base f \<in> loops)\<rparr> (spritemap st)"
proof -
  from assms obtain buf st1 where l: "load sys f = Inr buf" and r: "reference f buf st = Inr st1"
    and c: "record_clip loops f buf st1 = Inr st'"
    by (auto simp: loop_body_def split: sum.splits)
  from c obtain ob1 where ob1: "outBuf st1 = Some ob1" and nz: "NumChannels (Format buf) \<noteq> 0"
    by (auto simp: record_clip_def Let_def split: option.splits if_splits)
  from c ob1 nz have st': "st' = st1\<lparr>outBuf := Some (ob1\<lparr>Data := Data ob1 @ Data buf\<rparr>),
       currentSample := currentSample st1 + frames buf,
       spritemap := AList.update (fileKey f)
          \<lparr>Start = float_div (currentSample st1) (sampleRate st1),
           End = float_div (currentSample st1 + frames buf) (sampleRate st1),
           Loop = (filepath_Base f \<in> loops)\<rparr> (spritemap st1)\<rparr>"
    by (simp add: record_clip_def Let_def frames_def)
  show thesis
  proof (rule that[of buf "ob1\<lparr>Data := Data ob1 @ Data buf\<rparr>"])
    show "decode sys f = Inr buf" using l by (simp add: load_Inr)
    show "NumChannels (Format buf) \<noteq> 0" by (rule nz)
    show "SampleRate (Format buf) = sampleRate st'"
      using r st' by (auto simp: reference_def split: if_splits)
    show "outBuf st \<noteq> None \<Longrightarrow> sampleRate st' = sampleRate st"
      using r st' by (auto simp: reference_def split: if_splits)
    show "outBuf st' = Some (ob1\<lparr>Data := Data ob1 @ Data buf\<rparr>)" using st' by simp
    show "outBuf st = None \<Longrightarrow> Format (ob1\<lparr>Data := Data ob1 @ Data buf\<rparr>) = Format buf \<and>
        SourceBitDepth (ob1\<lparr>Data := Data ob1 @ Data buf\<rparr>) = SourceBitDepth buf \<and>
        Data (ob1\<lparr>Data := Data ob1 @ Data buf\<rparr>) = Data buf"
      using r ob1 by (auto simp: reference_def split: if_splits)
    show "\<And>ob0. outBuf st = Some ob0 \<Longrightarrow> Format (ob1\<lparr>Data := Data ob1 @ Data buf\<rparr>) = Format ob0 \<and>
        SourceBitDepth (ob1\<lparr>Data := Data ob1 @ Data buf\<rparr>) = SourceBitDepth ob0 \<and>
        Data (ob1\<lparr>Data := Data ob1 @ Data buf\<rparr>) = Data ob0 @ Data buf"
      using r ob1 by (auto simp: reference_def split: if_splits)
    show "currentSample st' = currentSample st + frames buf"
      using r st' by (auto simp: reference_def split: if_splits)
    show "spritemap st' = AList.update (fileKey f)
        \<lparr>Start = float_div (currentSample st) (sampleRate st'),
         End = float_div (currentSample st') (sampleRate st'),
         Loop = (filepath_Base f \<in> loops)\<rparr> (spritemap st)"
      using r st' by (auto simp: reference_def split: if_splits)
  qed
qed

lemma loop_body_succeeds:
  assumes "decode sys f = Inr buf" "NumChannels (Format buf) \<noteq> 0"
    and "outBuf st = None \<or> SampleRate (Format buf) = sampleRate st"
  shows "\<exists>st'. loop_body sys loops f st = Inr st'"
  using assms
  by (auto simp: loop_body_def load_def reference_def record_clip_def Let_def split: option.splits)

lemma combine_append:
  "combine sys loops (xs @ ys) st =
     (case combine sys loops xs st of Inl e \<Rightarrow> Inl e | Inr s \<Rightarrow> combine sys loops ys s)"
  by (induction xs arbitrary: st) (auto split: sum.splits)

lemma combine_take:
  assumes "combine sys loops inputs st = Inr s"
  obtains s' where "combine sys loops (take i inputs) st = Inr s'"
    and "combine sys loops (drop i inputs) s' = Inr s"
proof -
  have "combine sys loops (take i inputs @ drop i inputs) st = Inr s" using assms by simp
  then show thesis using that
    by (auto simp only: combine_append split: sum.splits)
qed

lemma combine_snoc:
  "combine sys loops (xs @ [f]) st =
     (case combine sys loops xs st of Inl e \<Rightarrow> Inl e | Inr s \<Rightarrow> loop_body sys loops f s)"
  by (simp add: combine_append split: sum.splits)

lemma combine_outBuf:
  "combine sys loops inputs st = Inr s \<Longrightarrow> outBuf st = Some ob0 \<Longrightarrow>
     \<exists>ob. outBuf s = Some ob \<and> Format ob = Format ob0 \<and> SourceBitDepth ob = SourceBitDepth ob0
        \<and> sampleRate s = sampleRate st"
proof (induction inputs arbitrary: st ob0)
  case Nil
  then show ?case by simp
next
  case (Cons f rest)
  from Cons.prems(1) obtain st1 where b: "loop_body sys loops f st = Inr st1"
    and c: "combine sys loops rest st1 = Inr s"
    by (auto split: sum.splits)
  from b Cons.prems(2) obtain ob1 where "outBuf st1 = Some ob1" "Format ob1 = Format ob0"
    "SourceBitDepth ob1 = SourceBitDepth ob0" "sampleRate st1 = sampleRate st"
    by (elim loop_body_Inr) auto
  with Cons.IH[OF c, of ob1] show ?case by auto
qed

lemma combine_keeps_other_keys:
  "combine sys loops inputs st = Inr s \<Longrightarrow> k \<notin> fileKey ` set inputs \<Longrightarrow>
     map_of (spritemap s) k = map_of (spritemap st) k"
proof (induction inputs arbitrary: st)
  case Nil
  then show ?case by simp
next
  case (Cons f rest)
  from Cons.prems(1) obtain st1 where b: "loop_body sys loops f st = Inr st1"
    and c: "combine sys loops rest st1 = Inr s"
    by (auto split: sum.splits)
  from b Cons.prems(2) have "map_of (spritemap st1) k = map_of (spritemap st) k"
    by (elim loop_body_Inr) (simp add: update_conv')
  with Cons.IH[OF c] Cons.prems(2) show ?case by simp
qed

lemma combine_cursor:
  "combine sys loops inputs st = Inr s \<Longrightarrow>
     currentSample s = currentSample st + total_frames sys inputs"
proof (induction inputs arbitrary: st)
  case Nil
  then show ?case by (simp add: total_frames_def)
next
  case (Cons f rest)
  from Cons.prems obtain st1 where b: "loop_body sys loops f st = Inr st1"
    and c: "combine sys loops rest st1 = Inr s"
    by (auto split: sum.splits)
  from b have "currentSample st1 = currentSample st + clip_frames sys f"
    by (elim loop_body_Inr) (simp add: clip_frames_def)
  with Cons.IH[OF c] show ?case by (simp add: total_frames_def)
qed

lemma combine_succeeds:
  assumes "list_all (accepted sys rate) inputs"
    and "outBuf st = None \<or> sampleRate st = rate"
  shows "\<exists>s. combine sys loops inputs st = Inr s"
  using assms
proof (induction inputs arbitrary: st)
  case Nil
  then show ?case by simp
next
  case (Cons f rest)
  from Cons.prems(1) obtain buf where d: "decode sys f = Inr buf"
    and nz: "NumChannels (Format buf) \<noteq> 0" and r: "SampleRate (Format buf) = rate"
    by (auto simp: accepted_def split: sum.splits)
  from d nz r Cons.prems(2) obtain st1 where b: "loop_body sys loops f st = Inr st1"
    using loop_body_succeeds[of sys f buf st loops] by auto
  from b d r have "sampleRate st1 = rate" by (elim loop_body_Inr) simp
  with Cons.IH[of st1] Cons.prems(1) obtain s where "combine sys loops rest st1 = Inr s"
    by auto
  with b show ?case by simp
qed

lemma first_clip_fixes:
  assumes run: "combine sys loops (f0 # rest) init_state = Inr st"
    and first: "decode sys f0 = Inr b0"
  shows "\<exists>ob. outBuf st = Some ob \<and> Format ob = Format b0
           \<and> SourceBitDepth ob = SourceBitDepth b0 \<and> sampleRate st = SampleRate (Format b0)"
proof -
  from run obtain st1 where b: "loop_body sys loops f0 init_state = Inr st1"
    and c: "combine sys loops rest st1 = Inr st"
    by (auto split: sum.splits)
  from b first obtain ob1 where o: "outBuf st1 = Some ob1" and "Format ob1 = Format b0"
    "SourceBitDepth ob1 = SourceBitDepth b0" "sampleRate st1 = SampleRate (Format b0)"
    by (elim loop_body_Inr) (auto simp: init_state_def)
  with combine_outBuf[OF c o] show ?thesis by auto
qed

lemma accepted_rate:
  assumes run: "combine sys loops inputs init_state = Inr st"
    and acc: "list_all (accepted sys rate) inputs" and ne: "inputs \<noteq> []"
  shows "sampleRate st = rate"
proof -
  from ne obtain f0 rest where inputs: "inputs = f0 # rest" by (cases inputs) auto
  with acc obtain b0 where "decode sys f0 = Inr b0" "SampleRate (Format b0) = rate"
    by (auto simp: accepted_def split: sum.splits)
  with first_clip_fixes[OF run[unfolded inputs]] show ?thesis by auto
qed

lemma run_step:
  assumes run: "combine sys loops inputs init_state = Inr st" and i: "i < length inputs"
  obtains s s' where
    "combine sys loops (take i inputs) init_state = Inr s"
    "loop_body sys loops (inputs ! i) s = Inr s'"
    "combine sys loops (take (Suc i) inputs) init_state = Inr s'"
    "combine sys loops (drop (Suc i) inputs) s' = Inr st"
    "sampleRate s' = sampleRate st"
proof -
  from run obtain s' where a: "combine sys loops (take (Suc i) inputs) init_state = Inr s'"
    and d: "combine sys loops (drop (Suc i) inputs) s' = Inr st"
    by (rule combine_take)
  from i have t: "take (Suc i) inputs = take i inputs @ [inputs ! i]"
    by (rule take_Suc_conv_app_nth)
  from a obtain s where p: "combine sys loops (take i inputs) init_state = Inr s"
    and b: "loop_body sys loops (inputs ! i) s = Inr s'"
    unfolding t combine_snoc by (auto split: sum.splits)
  from b obtain ob where "outBuf s' = Some ob" by (elim loop_body_Inr)
  with d have "sampleRate st = sampleRate s'" by (auto dest: combine_outBuf)
  with p b a d show thesis by (intro that) simp_all
qed

lemma entry_at_eq:
  assumes run: "combine sys loops inputs init_state = Inr st" and i: "i < length inputs"
  shows "entry_at sys loops inputs i =
     Some \<lparr>Start = float_div (total_frames sys (take i inputs)) (sampleRate st),
           End = float_div (total_frames sys (take (Suc i) inputs)) (sampleRate st),
           Loop = (filepath_Base (inputs ! i) \<in> loops)\<rparr>"
proof -
  from run i obtain s s' where p: "combine sys loops (take i inputs) init_state = Inr s"
    and b: "loop_body sys loops (inputs ! i) s = Inr s'"
    and a: "combine sys loops (take (Suc i) inputs) init_state = Inr s'"
    and r: "sampleRate s' = sampleRate st"
    by (rule run_step)
  have c: "currentSample s = total_frames sys (take i inputs)"
    using combine_cursor[OF p] by (simp add: init_state_def)
  have c': "currentSample s' = total_frames sys (take (Suc i) inputs)"
    using combine_cursor[OF a] by (simp add: init_state_def)
  from b have "map_of (spritemap s') (fileKey (inputs ! i)) =
      Some \<lparr>Start = float_div (currentSample s) (sampleRate s'),
            End = float_div (currentSample s') (sampleRate s'),
            Loop = (filepath_Base (inputs ! i) \<in> loops)\<rparr>"
    by (elim loop_body_Inr) (simp add: update_conv')
  with a c c' r show ?thesis by (simp add: entry_at_def)
qed

lemma cursor_before_eq:
  assumes run: "combine sys loops inputs init_state = Inr st"
  shows "cursor_before sys loops inputs i = Some (total_frames sys (take i inputs))"
proof -
  from run obtain s where p: "combine sys loops (take i inputs) init_state = Inr s"
    by (rule combine_take)
  with combine_cursor[OF p] show ?thesis by (simp add: cursor_before_def init_state_def)
qed

lemma final_entry:
  assumes run: "combine sys loops inputs init_state = Inr st" and i: "i < length inputs"
    and last: "fileKey (inputs ! i) \<notin> fileKey ` set (drop (Suc i) inputs)"
  shows "map_of (spritemap st) (fileKey (inputs ! i)) = entry_at sys loops inputs i"
proof -
  from run i obtain s' where a: "combine sys loops (take (Suc i) inputs) init_state = Inr s'"
    and d: "combine sys loops (drop (Suc i) inputs) s' = Inr st"
    by (rule run_step)
  from combine_keeps_other_keys[OF d last] a show ?thesis by (simp add: entry_at_def)
qed

lemma distinct_keys_last:
  assumes "distinct (map fileKey inputs)" "i < length inputs"
  shows "fileKey (inputs ! i) \<notin> fileKey ` set (drop (Suc i) inputs)"
proof -
  have "inputs = take i inputs @ inputs ! i # drop (Suc i) inputs"
    using assms(2) by (rule id_take_nth_drop)
  then have "distinct (map fileKey (take i inputs @ inputs ! i # drop (Suc i) inputs))"
    using assms(1) by simp
  then show ?thesis by (simp only: map_append list.map distinct_append distinct.simps set_map) simp
qed

lemma combine_data_length:
  "combine sys loops inputs st = Inr s \<Longrightarrow> inputs \<noteq> [] \<or> outBuf st \<noteq> None \<Longrightarrow>
     \<exists>ob. outBuf s = Some ob \<and>
       length (Data ob) =
         (case outBuf st of None \<Rightarrow> 0 | Some ob0 \<Rightarrow> length (Data ob0))
           + sum_list (map (clip_samples sys) inputs)"
proof (induction inputs arbitrary: st)
  case Nil
  then show ?case by auto
next
  case (Cons f rest)
  from Cons.prems(1) obtain st1 where b: "loop_body sys loops f st = Inr st1"
    and c: "combine sys loops rest st1 = Inr s"
    by (auto split: sum.splits)
  from b obtain ob1 where o: "outBuf st1 = Some ob1"
    and l: "length (Data ob1) =
       (case outBuf st of None \<Rightarrow> 0 | Some ob0 \<Rightarrow> length (Data ob0)) + clip_samples sys f"
    by (elim loop_body_Inr) (auto simp: clip_samples_def split: option.splits)
  from Cons.IH[OF c] o l show ?case by auto
qed

lemma total_frames_whole:
  assumes "0 < ch" and "list_all (whole_frames sys ch) inputs"
  shows "ch dvd int (sum_list (map (clip_samples sys) inputs))
    \<and> total_frames sys inputs = int (sum_list (map (clip_samples sys) inputs)) div ch"
  using assms(2)
proof (induction inputs)
  case Nil
  then show ?case by (simp add: total_frames_def)
next
  case (Cons f rest)
  from Cons.prems obtain b where d: "decode sys f = Inr b" and c: "NumChannels (Format b) = ch"
    and w: "ch dvd int (length (Data b))"
    by (auto simp: whole_frames_def split: sum.splits)
  from Cons have ih: "ch dvd int (sum_list (map (clip_samples sys) rest))"
    "total_frames sys rest = int (sum_list (map (clip_samples sys) rest)) div ch"
    by simp_all
  have f: "clip_frames sys f = int (length (Data b)) div ch"
    using d c assms(1) by (simp add: clip_frames_def frames_def go_quot_pos)
  have s: "clip_samples sys f = length (Data b)" using d by (simp add: clip_samples_def)
  from w ih(1) have "(int (length (Data b)) + int (sum_list (map (clip_samples sys) rest))) div ch
      = int (length (Data b)) div ch + int (sum_list (map (clip_samples sys) rest)) div ch"
    by (rule div_add)
  with f s ih w show ?case by (simp add: total_frames_def)
qed

lemma write_outputs_events:
  assumes "ev \<in> set (effects (write_outputs sys outBase st))" and "outBuf st = Some ob"
  shows "case ev of
        NewEncoder p r d c a \<Rightarrow>
          r = sampleRate st \<and> d = SourceBitDepth ob \<and> c = NumChannels (Format ob) \<and> a = 1
      | EncoderWrite b \<Rightarrow> b = ob
      | _ \<Rightarrow> True"
  using assms
  by (auto simp: write_outputs_def Let_def split: if_splits)

subsection \<open>Deferred removals in the second program\<close>

lemma resampled_append [simp]: "resampled (xs @ ys) = resampled xs @ resampled ys"
  by (simp add: resampled_def)

lemma removed_append [simp]: "removed (xs @ ys) = removed xs @ removed ys"
  by (simp add: removed_def)

lemma removed_map_Remove [simp]: "removed (map Remove ps) = ps"
  by (induction ps) (simp_all add: removed_def)

lemma resampled_map_Remove [simp]: "resampled (map Remove ps) = []"
  by (induction ps) (simp_all add: resampled_def)

lemma loop_body2_trace:
  assumes "loop_body2 sys loops f st d t = (res, d', t')"
  shows "\<exists>new. t' = t @ new \<and> d' = rev (resampled new) @ d \<and> removed new = []"
proof -
  have "(d' = d \<and> t' = t) \<or> (\<exists>r tmp. d' = tmp # d \<and> t' = t @ [Resample f r tmp])"
    using assms
    by (auto simp: loop_body2_def Let_def split: sum.splits if_splits option.splits)
  then show ?thesis
  proof
    assume "d' = d \<and> t' = t"
    then have "t' = t @ [] \<and> d' = rev (resampled []) @ d \<and> removed [] = []"
      by (simp add: resampled_def removed_def)
    then show ?thesis by blast
  next
    assume "\<exists>r tmp. d' = tmp # d \<and> t' = t @ [Resample f r tmp]"
    then obtain r tmp where "d' = tmp # d" "t' = t @ [Resample f r tmp]" by blast
    then have "t' = t @ [Resample f r tmp] \<and> d' = rev (resampled [Resample f r tmp]) @ d
        \<and> removed [Resample f r tmp] = []"
      by (simp add: resampled_def removed_def)
    then show ?thesis by blast
  qed
qed

lemma combine2_trace:
  "combine2 sys loops inputs st d t = (res, d', t') \<Longrightarrow>
     \<exists>new. t' = t @ new \<and> d' = rev (resampled new) @ d \<and> removed new = []"
proof (induction inputs arbitrary: st d t)
  case Nil
  then have "t' = t @ [] \<and> d' = rev (resampled []) @ d \<and> removed [] = []"
    by (simp add: resampled_def removed_def)
  then show ?case by blast
next
  case (Cons f rest)
  obtain r1 d1 t1 where b: "loop_body2 sys loops f st d t = (r1, d1, t1)"
    by (cases "loop_body2 sys loops f st d t") auto
  from loop_body2_trace[OF b] obtain n1 where n1: "t1 = t @ n1" "d1 = rev (resampled n1) @ d"
    "removed n1 = []" by blast
  show ?case
  proof (cases r1)
    case (Inl e)
    with Cons.prems b have "t' = t1" "d' = d1" by simp_all
    with n1 show ?thesis by blast
  next
    case (Inr st1)
    with Cons.prems b have "combine2 sys loops rest st1 d1 t1 = (res, d', t')" by simp
    from Cons.IH[OF this] obtain n2 where "t' = t1 @ n2" "d' = rev (resampled n2) @ d1"
      "removed n2 = []" by blast
    with n1 have "t' = t @ (n1 @ n2) \<and> d' = rev (resampled (n1 @ n2)) @ d \<and> removed (n1 @ n2) = []"
      by simp
    then show ?thesis by blast
  qed
qed

text \<open>
  On a return of the second program every resampled file is removed; on a fatal exit
  nothing is removed but, at most, the intermediate WAV file after a conversion.
\<close>

lemma main2_return_removes:
  assumes "exit (main2 sys outBase loops formatFlag args) = None"
  shows "set (resampled (effects (main2 sys outBase loops formatFlag args)))
     \<subseteq> set (removed (effects (main2 sys outBase loops formatFlag args)))"
proof -
  let ?r = "main2 sys outBase loops formatFlag args"
  from assms obtain inputs st d t where
    loop: "combine2 sys loops inputs init_state [] [] = (Inr st, d, t)"
    and w: "?r = write_outputs2 sys outBase formatFlag st d t"
    by (auto simp: main2_def leave_def split: if_splits sum.splits prod.splits)
  from combine2_trace[OF loop] have d: "d = rev (resampled t)" and t: "removed t = []" by auto
  from assms w obtain mid where "effects ?r = t @ mid @ map Remove d" "resampled mid = []"
    by (auto simp: write_outputs2_def writeWAV_def leave_def Let_def resampled_def
        split: option.splits if_splits prod.splits)
  with d show ?thesis by auto
qed

lemma main2_fatal_removes_nothing:
  assumes "exit (main2 sys outBase loops formatFlag args) = Some e" and "e \<noteq> RuntimePanic"
  shows "set (removed (effects (main2 sys outBase loops formatFlag args))) \<subseteq> {outBase @ ''.wav''}"
proof -
  let ?r = "main2 sys outBase loops formatFlag args"
  show ?thesis
  proof (cases "effects ?r = []")
    case True
    then show ?thesis by (simp add: removed_def)
  next
    case False
    then obtain inputs res d t where
      loop: "combine2 sys loops inputs init_state [] [] = (res, d, t)"
      and w: "?r = (case res of Inl e \<Rightarrow> leave (Some e) d t
                    | Inr st \<Rightarrow> write_outputs2 sys outBase formatFlag st d t)"
      by (auto simp: main2_def split: if_splits sum.splits prod.splits)
    from combine2_trace[OF loop] have t: "removed t = []" by auto
    show ?thesis
    proof (cases res)
      case (Inl e')
      with w assms t show ?thesis by (auto simp: leave_def split: if_splits)
    next
      case (Inr st)
      with w assms t show ?thesis
        by (auto simp: write_outputs2_def writeWAV_def leave_def Let_def removed_def
            split: option.splits if_splits prod.splits)
    qed
  qed
qed

lemma temp_file_removed_on_return:
  "main2 example_system ''sprite'' {} ''wav'' [''a.wav'', ''fast.wav''] =
     \<lparr>exit = None,
      effects =
        [Resample ''fast.wav'' 4 ''fast.wav_resampled_4.wav'',
         Create ''sprite.wav'', NewEncoder ''sprite.wav'' 4 16 1 1,
         EncoderWrite \<lparr>Format = \<lparr>NumChannels = 1, SampleRate = 4\<rparr>,
                       Data = [1, 2, 3, 4, 1, 2], SourceBitDepth = 16\<rparr>,
         WriteFile ''sprite.json''
           \<lparr>Resources = [''sprite.wav''],
            Spritemap = [(''a'', \<lparr>Start = Fin 0, End = Fin 1, Loop = False\<rparr>),
                         (''fast'', \<lparr>Start = Fin 1, End = Fin (3 / 2), Loop = False\<rparr>)]\<rparr>,
         Remove ''fast.wav_resampled_4.wav'']\<rparr>"
  by (simp add: model_defs model2_defs)

subsection \<open>The claims\<close>

text \<open>
  C1. In a run of the loop with a non-zero reference rate, the entry stored for every
  input starts at the cursor before that input divided by the reference rate, and it ends
  where the entry stored for the next input starts (compared as Go compares floats). When
  the keys of the inputs are distinct, this entry is the one the final map holds for the
  input.
\<close>

theorem timeline_contiguous:
  assumes run: "combine sys loops inputs init_state = Inr st"
    and rate: "sampleRate st \<noteq> 0"
    and i: "i < length inputs"
  shows "\<exists>e c. entry_at sys loops inputs i = Some e
           \<and> cursor_before sys loops inputs i = Some c
           \<and> Start e = Fin (real_of_int c / real_of_int (sampleRate st))
           \<and> (Suc i < length inputs \<longrightarrow>
                (\<exists>e'. entry_at sys loops inputs (Suc i) = Some e'
                   \<and> float_eq (End e) (Start e')))
           \<and> (distinct (map fileKey inputs) \<longrightarrow>
                map_of (spritemap st) (fileKey (inputs ! i)) = Some e)"
proof -
  let ?e = "\<lambda>j. \<lparr>Start = float_div (total_frames sys (take j inputs)) (sampleRate st),
           End = float_div (total_frames sys (take (Suc j) inputs)) (sampleRate st),
           Loop = (filepath_Base (inputs ! j) \<in> loops)\<rparr>"
  have entry: "entry_at sys loops inputs j = Some (?e j)" if "j < length inputs" for j
    using entry_at_eq[OF run that] .
  have final: "map_of (spritemap st) (fileKey (inputs ! i)) = Some (?e i)"
    if "distinct (map fileKey inputs)"
    using final_entry[OF run i distinct_keys_last[OF that i]] entry[OF i] by simp
  have "float_eq (End (?e i)) (Start (?e (Suc i)))"
    using rate by (simp add: float_eq_def float_div_Fin)
  with entry[OF i] entry[of "Suc i"] final cursor_before_eq[OF run, of i] rate
  show ?thesis by (simp add: float_div_Fin)
qed

theorem timeline_contiguous_witness:
  "\<exists>st. combine example_system {} [''a.wav'', ''b.wav''] init_state = Inr st
     \<and> sampleRate st \<noteq> 0
     \<and> (0::nat) < length [''a.wav'', ''b.wav'']
     \<and> Suc 0 < length [''a.wav'', ''b.wav'']
     \<and> distinct (map fileKey [''a.wav'', ''b.wav''])
     \<and> (\<exists>e c e'. entry_at example_system {} [''a.wav'', ''b.wav''] 0 = Some e
           \<and> cursor_before example_system {} [''a.wav'', ''b.wav''] 0 = Some c
           \<and> Start e = Fin (real_of_int c / real_of_int (sampleRate st))
           \<and> entry_at example_system {} [''a.wav'', ''b.wav''] (Suc 0) = Some e'
           \<and> float_eq (End e) (Start e')
           \<and> map_of (spritemap st) (fileKey ([''a.wav'', ''b.wav''] ! 0)) = Some e)"
proof -
  from example_run[of "{}"] obtain st
    where run: "combine example_system {} [''a.wav'', ''b.wav''] init_state = Inr st"
      and rate: "sampleRate st \<noteq> 0"
    by simp
  have i: "(0::nat) < length [''a.wav'', ''b.wav'']" by simp
  have i': "Suc 0 < length [''a.wav'', ''b.wav'']" by simp
  from timeline_contiguous[OF run rate i] i' example_keys
  have "\<exists>e c e'. entry_at example_system {} [''a.wav'', ''b.wav''] 0 = Some e
           \<and> cursor_before example_system {} [''a.wav'', ''b.wav''] 0 = Some c
           \<and> Start e = Fin (real_of_int c / real_of_int (sampleRate st))
           \<and> entry_at example_system {} [''a.wav'', ''b.wav''] (Suc 0) = Some e'
           \<and> float_eq (End e) (Start e')
           \<and> map_of (spritemap st) (fileKey ([''a.wav'', ''b.wav''] ! 0)) = Some e"
    by blast
  with run rate i i' example_keys show ?thesis by blast
qed

text \<open>
  C2. In a run of the loop over a non-empty list of inputs with a non-zero reference rate,
  the entry stored for the first input starts at exactly 0 (and the final map holds it
  unless a later input has the same key), and the final map's entry for the last input
  ends at the total number of frames appended (the final cursor: the sum over the inputs
  of sample count by channel count) divided by the reference rate. When all clips have
  the same positive channel count and whole frames, that total is the number of frames
  of the output buffer.
\<close>

theorem timeline_first_and_last:
  assumes run: "combine sys loops inputs init_state = Inr st"
    and ne: "inputs \<noteq> []"
    and rate: "sampleRate st \<noteq> 0"
  shows "\<exists>e e'. entry_at sys loops inputs 0 = Some e
           \<and> Start e = Fin 0
           \<and> (fileKey (hd inputs) \<notin> fileKey ` set (tl inputs) \<longrightarrow>
                map_of (spritemap st) (fileKey (hd inputs)) = Some e)
           \<and> map_of (spritemap st) (fileKey (last inputs)) = Some e'
           \<and> End e' = Fin (real_of_int (total_frames sys inputs) / real_of_int (sampleRate st))
           \<and> currentSample st = total_frames sys inputs
           \<and> (0 < ch \<and> list_all (whole_frames sys ch) inputs \<longrightarrow>
                (\<exists>ob. outBuf st = Some ob
                   \<and> total_frames sys inputs = int (length (Data ob)) div ch))"
proof -
  let ?n = "length inputs - 1"
  let ?e = "\<lambda>j. \<lparr>Start = float_div (total_frames sys (take j inputs)) (sampleRate st),
           End = float_div (total_frames sys (take (Suc j) inputs)) (sampleRate st),
           Loop = (filepath_Base (inputs ! j) \<in> loops)\<rparr>"
  from ne have n: "?n < length inputs" and z: "0 < length inputs" by simp_all
  have h: "hd inputs = inputs ! 0" using ne by (simp add: hd_conv_nth)
  have l: "last inputs = inputs ! ?n" using ne by (simp add: last_conv_nth)
  have t: "take (Suc ?n) inputs = inputs" using ne by simp
  have d0: "drop (Suc 0) inputs = tl inputs" by (simp add: drop_Suc)
  have dn: "drop (Suc ?n) inputs = []" using ne by simp
  have first: "entry_at sys loops inputs 0 = Some (?e 0)"
    using entry_at_eq[OF run z] .
  have first_final: "map_of (spritemap st) (fileKey (hd inputs)) = Some (?e 0)"
    if "fileKey (hd inputs) \<notin> fileKey ` set (tl inputs)"
    using final_entry[OF run z] that first unfolding h d0 by simp
  have last: "map_of (spritemap st) (fileKey (last inputs)) = Some (?e ?n)"
    using final_entry[OF run n] entry_at_eq[OF run n] unfolding l dn by simp
  have c: "currentSample st = total_frames sys inputs"
    using combine_cursor[OF run] by (simp add: init_state_def)
  have out: "\<exists>ob. outBuf st = Some ob
      \<and> total_frames sys inputs = int (length (Data ob)) div ch"
    if "0 < ch" "list_all (whole_frames sys ch) inputs"
    using combine_data_length[OF run] ne total_frames_whole[OF that]
    by (auto simp: init_state_def)
  from first first_final last rate c out show ?thesis
    unfolding t by (simp add: float_div_Fin total_frames_def)
qed

theorem timeline_first_and_last_witness:
  "\<exists>st. combine example_system {} [''a.wav'', ''b.wav''] init_state = Inr st
     \<and> [''a.wav'', ''b.wav''] \<noteq> []
     \<and> sampleRate st \<noteq> 0
     \<and> fileKey (hd [''a.wav'', ''b.wav'']) \<notin> fileKey ` set (tl [''a.wav'', ''b.wav''])
     \<and> (0::int) < 1
     \<and> list_all (whole_frames example_system 1) [''a.wav'', ''b.wav'']
     \<and> (\<exists>e e' ob. entry_at example_system {} [''a.wav'', ''b.wav''] 0 = Some e
           \<and> Start e = Fin 0
           \<and> map_of (spritemap st) (fileKey (hd [''a.wav'', ''b.wav''])) = Some e
           \<and> map_of (spritemap st) (fileKey (last [''a.wav'', ''b.wav''])) = Some e'
           \<and> End e' = Fin (real_of_int (total_frames example_system [''a.wav'', ''b.wav''])
                            / real_of_int (sampleRate st))
           \<and> currentSample st = total_frames example_system [''a.wav'', ''b.wav'']
           \<and> outBuf st = Some ob
           \<and> total_frames example_system [''a.wav'', ''b.wav''] = int (length (Data ob)) div 1)"
proof -
  from example_run[of "{}"] obtain st
    where run: "combine example_system {} [''a.wav'', ''b.wav''] init_state = Inr st"
      and rate: "sampleRate st \<noteq> 0"
    by simp
  have ne: "[''a.wav'', ''b.wav''] \<noteq> []" by simp
  have k: "fileKey (hd [''a.wav'', ''b.wav'']) \<notin> fileKey ` set (tl [''a.wav'', ''b.wav''])"
    using example_keys by simp
  have ch: "(0::int) < 1" by simp
  from timeline_first_and_last[OF run ne rate, of 1] k ch example_whole
  have "\<exists>e e' ob. entry_at example_system {} [''a.wav'', ''b.wav''] 0 = Some e
           \<and> Start e = Fin 0
           \<and> map_of (spritemap st) (fileKey (hd [''a.wav'', ''b.wav''])) = Some e
           \<and> map_of (spritemap st) (fileKey (last [''a.wav'', ''b.wav''])) = Some e'
           \<and> End e' = Fin (real_of_int (total_frames example_system [''a.wav'', ''b.wav''])
                            / real_of_int (sampleRate st))
           \<and> currentSample st = total_frames example_system [''a.wav'', ''b.wav'']
           \<and> outBuf st = Some ob
           \<and> total_frames example_system [''a.wav'', ''b.wav''] = int (length (Data ob)) div 1"
    by blast
  with run ne rate k ch example_whole show ?thesis by blast
qed

text \<open>
  C3, as stated, fails: two distinct inputs with the same key do not stop the run. Here
  \<open>a.wav\<close> and \<open>dir/a.wav\<close> both have the key \<open>a\<close>; the run exits with status 0 and the
  JSON file holds one entry, that of the second clip.
\<close>

theorem duplicate_key_counterexample:
  "''a.wav'' \<noteq> ''dir/a.wav'' \<and> fileKey ''a.wav'' = fileKey ''dir/a.wav''
   \<and> main example_system ''sprite'' {} [''a.wav'', ''dir/a.wav''] =
       \<lparr>exit = None,
        effects =
          [Create ''sprite.wav'', NewEncoder ''sprite.wav'' 4 16 1 1,
           EncoderWrite \<lparr>Format = \<lparr>NumChannels = 1, SampleRate = 4\<rparr>,
                         Data = [1, 2, 3, 4, 7, 8], SourceBitDepth = 16\<rparr>,
           WriteFile ''sprite.json''
             \<lparr>Resources = [''sprite.wav''],
              Spritemap = [(''a'', \<lparr>Start = Fin 1, End = Fin (3 / 2), Loop = False\<rparr>)]\<rparr>]\<rparr>"
  by (simp add: model_defs)

text \<open>
  C3, amended. Names never stop the run: when every input decodes with a non-zero channel
  count and the common sample rate, the loop succeeds, and under a key shared by two
  inputs the map holds the entry of the last input with that key (the interval of that
  clip; the earlier entry is replaced).
\<close>

theorem duplicate_key_last_wins:
  assumes acc: "list_all (accepted sys rate) inputs"
    and ij: "i < j" and j: "j < length inputs"
    and same: "fileKey (inputs ! i) = fileKey (inputs ! j)"
    and last: "fileKey (inputs ! j) \<notin> fileKey ` set (drop (Suc j) inputs)"
  shows "\<exists>st. combine sys loops inputs init_state = Inr st
           \<and> map_of (spritemap st) (fileKey (inputs ! i)) =
               Some \<lparr>Start = float_div (total_frames sys (take j inputs)) rate,
                     End = float_div (total_frames sys (take (Suc j) inputs)) rate,
                     Loop = (filepath_Base (inputs ! j) \<in> loops)\<rparr>"
proof -
  from acc obtain st where run: "combine sys loops inputs init_state = Inr st"
    using combine_succeeds[of sys rate inputs init_state loops] by (auto simp: init_state_def)
  from j have "inputs \<noteq> []" by auto
  with run acc have r: "sampleRate st = rate" by (rule accepted_rate)
  from final_entry[OF run j last] entry_at_eq[OF run j] same r run show ?thesis by simp
qed

theorem duplicate_key_last_wins_witness:
  "list_all (accepted example_system 4) [''a.wav'', ''b.wav'', ''dir/a.wav'']
   \<and> (0::nat) < 2 \<and> (2::nat) < length [''a.wav'', ''b.wav'', ''dir/a.wav'']
   \<and> fileKey ([''a.wav'', ''b.wav'', ''dir/a.wav''] ! 0) = fileKey ([''a.wav'', ''b.wav'', ''dir/a.wav''] ! 2)
   \<and> fileKey ([''a.wav'', ''b.wav'', ''dir/a.wav''] ! 2)
        \<notin> fileKey ` set (drop (Suc 2) [''a.wav'', ''b.wav'', ''dir/a.wav''])
   \<and> (\<exists>st. combine example_system {} [''a.wav'', ''b.wav'', ''dir/a.wav''] init_state = Inr st
         \<and> map_of (spritemap st) (fileKey ([''a.wav'', ''b.wav'', ''dir/a.wav''] ! 0)) =
             Some \<lparr>Start = float_div (total_frames example_system (take 2 [''a.wav'', ''b.wav'', ''dir/a.wav''])) 4,
                   End = float_div (total_frames example_system (take (Suc 2) [''a.wav'', ''b.wav'', ''dir/a.wav''])) 4,
                   Loop = (filepath_Base ([''a.wav'', ''b.wav'', ''dir/a.wav''] ! 2) \<in> {})\<rparr>)"
proof -
  have ij: "(0::nat) < 2" by simp
  have j: "(2::nat) < length [''a.wav'', ''b.wav'', ''dir/a.wav'']" by simp
  have same: "fileKey ([''a.wav'', ''b.wav'', ''dir/a.wav''] ! 0) = fileKey ([''a.wav'', ''b.wav'', ''dir/a.wav''] ! 2)"
    by (simp add: model_defs)
  have last: "fileKey ([''a.wav'', ''b.wav'', ''dir/a.wav''] ! 2)
        \<notin> fileKey ` set (drop (Suc 2) [''a.wav'', ''b.wav'', ''dir/a.wav''])"
    by simp
  from duplicate_key_last_wins[OF example_dup_accepted ij j same last, of "{}"]
    example_dup_accepted ij j same last
  show ?thesis by blast
qed

text \<open>
  C4, as stated, fails: a stereo clip after a mono clip does not stop the run. The samples
  are appended and the encoder is still given one channel.
\<close>

theorem channel_mismatch_counterexample:
  "decode example_system ''a.wav'' = clip 1 4 [1, 2, 3, 4]
   \<and> decode example_system ''stereo.wav'' = clip 2 4 [9, 10, 11]
   \<and> main example_system ''sprite'' {} [''a.wav'', ''stereo.wav''] =
       \<lparr>exit = None,
        effects =
          [Create ''sprite.wav'', NewEncoder ''sprite.wav'' 4 16 1 1,
           EncoderWrite \<lparr>Format = \<lparr>NumChannels = 1, SampleRate = 4\<rparr>,
                         Data = [1, 2, 3, 4, 9, 10, 11], SourceBitDepth = 16\<rparr>,
           WriteFile ''sprite.json''
             \<lparr>Resources = [''sprite.wav''],
              Spritemap = [(''a'', \<lparr>Start = Fin 0, End = Fin 1, Loop = False\<rparr>),
                           (''stereo'', \<lparr>Start = Fin 1, End = Fin (5 / 4), Loop = False\<rparr>)]\<rparr>]\<rparr>"
  by (simp add: model_defs)

text \<open>
  C4, amended. A clip after the first whose channel count differs from that of the output
  buffer is not refused: with the reference sample rate and a non-zero channel count, its
  samples are appended as they are, the output format stays, and the cursor advances by
  its sample count divided by its own channel count.
\<close>

theorem channel_mismatch_accepted:
  assumes later: "outBuf st = Some ob"
    and dec: "decode sys infile = Inr buf"
    and rate: "SampleRate (Format buf) = sampleRate st"
    and nz: "NumChannels (Format buf) \<noteq> 0"
    and differs: "NumChannels (Format buf) \<noteq> NumChannels (Format ob)"
  shows "\<exists>st' ob'. loop_body sys loops infile st = Inr st'
           \<and> outBuf st' = Some ob'
           \<and> Format ob' = Format ob
           \<and> Data ob' = Data ob @ Data buf
           \<and> currentSample st' =
               currentSample st + go_quot (int (length (Data buf))) (NumChannels (Format buf))"
proof -
  from dec nz rate obtain st' where b: "loop_body sys loops infile st = Inr st'"
    using loop_body_succeeds[of sys infile buf st loops] by auto
  from b dec later obtain ob' where "outBuf st' = Some ob'" "Format ob' = Format ob"
    "Data ob' = Data ob @ Data buf"
    "currentSample st' =
       currentSample st + go_quot (int (length (Data buf))) (NumChannels (Format buf))"
    by (elim loop_body_Inr) (auto simp: frames_def)
  with b show ?thesis by blast
qed

theorem channel_mismatch_accepted_witness:
  "\<exists>st ob buf. combine example_system {} [''a.wav''] init_state = Inr st
     \<and> outBuf st = Some ob
     \<and> decode example_system ''stereo.wav'' = Inr buf
     \<and> SampleRate (Format buf) = sampleRate st
     \<and> NumChannels (Format buf) \<noteq> 0
     \<and> NumChannels (Format buf) \<noteq> NumChannels (Format ob)
     \<and> (\<exists>st' ob'. loop_body example_system {} ''stereo.wav'' st = Inr st'
           \<and> outBuf st' = Some ob'
           \<and> Format ob' = Format ob
           \<and> Data ob' = Data ob @ Data buf
           \<and> currentSample st' =
               currentSample st + go_quot (int (length (Data buf))) (NumChannels (Format buf)))"
proof -
  from example_first_step[of "{}"] obtain st ob
    where run: "combine example_system {} [''a.wav''] init_state = Inr st"
      and later: "outBuf st = Some ob"
      and r: "sampleRate st = 4" and c: "NumChannels (Format ob) = 1"
    by simp
  obtain buf where dec: "decode example_system ''stereo.wav'' = Inr buf"
    and rb: "SampleRate (Format buf) = 4" and cb: "NumChannels (Format buf) = 2"
    by (simp add: model_defs)
  have rate: "SampleRate (Format buf) = sampleRate st" using r rb by simp
  have nz: "NumChannels (Format buf) \<noteq> 0" using cb by simp
  have differs: "NumChannels (Format buf) \<noteq> NumChannels (Format ob)" using c cb by simp
  from channel_mismatch_accepted[OF later dec rate nz differs, of "{}"]
    run later dec rate nz differs
  show ?thesis by blast
qed

text \<open>
  C5, as stated, fails in its second half: three samples on two channels do not stop the
  run; the cursor advances by one frame and the third sample is still appended.
\<close>

theorem malformed_buffer_counterexample:
  "decode example_system ''stereo.wav'' = clip 2 4 [9, 10, 11]
   \<and> main example_system ''sprite'' {} [''stereo.wav''] =
       \<lparr>exit = None,
        effects =
          [Create ''sprite.wav'', NewEncoder ''sprite.wav'' 4 16 2 1,
           EncoderWrite \<lparr>Format = \<lparr>NumChannels = 2, SampleRate = 4\<rparr>,
                         Data = [9, 10, 11], SourceBitDepth = 16\<rparr>,
           WriteFile ''sprite.json''
             \<lparr>Resources = [''sprite.wav''],
              Spritemap = [(''stereo'', \<lparr>Start = Fin 0, End = Fin (1 / 4), Loop = False\<rparr>)]\<rparr>]\<rparr>"
  by (simp add: model_defs)

text \<open>
  C5, amended. For a clip that decodes with a positive channel count (and, after the
  first, the reference rate), the loop body succeeds whether or not the sample count is a
  multiple of the channel count: all samples are appended, and the cursor advances by the
  sample count divided by the channel count, rounded down.
\<close>

theorem cursor_advance_truncates:
  assumes dec: "decode sys infile = Inr buf"
    and pos: "0 < NumChannels (Format buf)"
    and rate: "outBuf st = None \<or> SampleRate (Format buf) = sampleRate st"
  shows "\<exists>st' ob'. loop_body sys loops infile st = Inr st'
           \<and> currentSample st' =
               currentSample st + int (length (Data buf)) div NumChannels (Format buf)
           \<and> outBuf st' = Some ob'
           \<and> Data ob' = (case outBuf st of None \<Rightarrow> [] | Some ob \<Rightarrow> Data ob) @ Data buf"
proof -
  from dec pos rate obtain st' where b: "loop_body sys loops infile st = Inr st'"
    using loop_body_succeeds[of sys infile buf st loops] by auto
  from b dec pos obtain ob' where "currentSample st' =
      currentSample st + int (length (Data buf)) div NumChannels (Format buf)"
    "outBuf st' = Some ob'"
    "Data ob' = (case outBuf st of None \<Rightarrow> [] | Some ob \<Rightarrow> Data ob) @ Data buf"
    by (elim loop_body_Inr) (auto simp: frames_def go_quot_pos split: option.splits)
  with b show ?thesis by blast
qed

theorem cursor_advance_truncates_witness:
  "decode example_system ''stereo.wav'' =
      Inr \<lparr>Format = \<lparr>NumChannels = 2, SampleRate = 4\<rparr>, Data = [9, 10, 11], SourceBitDepth = 16\<rparr>
   \<and> 0 < NumChannels (Format \<lparr>Format = \<lparr>NumChannels = 2, SampleRate = 4\<rparr>, Data = [9, 10, 11], SourceBitDepth = 16\<rparr>)
   \<and> outBuf init_state = None
   \<and> (\<exists>st' ob'. loop_body example_system {} ''stereo.wav'' init_state = Inr st'
         \<and> currentSample st' = currentSample init_state + int (length [9, 10, 11 :: int]) div 2
         \<and> outBuf st' = Some ob'
         \<and> Data ob' = [9, 10, 11])"
proof -
  let ?buf = "\<lparr>Format = \<lparr>NumChannels = 2, SampleRate = 4\<rparr>, Data = [9, 10, 11], SourceBitDepth = 16\<rparr>"
  have dec: "decode example_system ''stereo.wav'' = Inr ?buf" by (simp add: model_defs)
  have pos: "0 < NumChannels (Format ?buf)" by simp
  have none: "outBuf init_state = None" by (simp add: init_state_def)
  then have rate: "outBuf init_state = None \<or> SampleRate (Format ?buf) = sampleRate init_state" ..
  from cursor_advance_truncates[OF dec pos rate, of "{}"] none have
    "\<exists>st' ob'. loop_body example_system {} ''stereo.wav'' init_state = Inr st'
         \<and> currentSample st' = currentSample init_state + int (length [9, 10, 11 :: int]) div 2
         \<and> outBuf st' = Some ob'
         \<and> Data ob' = [9, 10, 11]"
    by simp
  with dec pos none show ?thesis by blast
qed

text \<open>
  C6, as stated, fails: the loop set is looked up with the base file name, extension
  included, not with the key. With \<open>a.wav\<close> in the set, the entry of \<open>a.wav\<close> has
  \<open>loop: true\<close> although its key \<open>a\<close> is not in the set.
\<close>

theorem loop_flag_counterexample:
  "fileKey ''a.wav'' = ''a'' \<and> ''a'' \<notin> {''a.wav''}
   \<and> main example_system ''sprite'' {''a.wav''} [''a.wav''] =
       \<lparr>exit = None,
        effects =
          [Create ''sprite.wav'', NewEncoder ''sprite.wav'' 4 16 1 1,
           EncoderWrite \<lparr>Format = \<lparr>NumChannels = 1, SampleRate = 4\<rparr>,
                         Data = [1, 2, 3, 4], SourceBitDepth = 16\<rparr>,
           WriteFile ''sprite.json''
             \<lparr>Resources = [''sprite.wav''],
              Spritemap = [(''a'', \<lparr>Start = Fin 0, End = Fin 1, Loop = True\<rparr>)]\<rparr>]\<rparr>"
  by (simp add: model_defs)

text \<open>
  C6, amended. The entry the map holds for an input (the last one with its key) has
  \<open>loop\<close> true if and only if the base file name of the input, extension included, is in
  the loop set.
\<close>

theorem loop_flag_by_base_name:
  assumes run: "combine sys loops inputs init_state = Inr st"
    and i: "i < length inputs"
    and last: "fileKey (inputs ! i) \<notin> fileKey ` set (drop (Suc i) inputs)"
  shows "\<exists>e. map_of (spritemap st) (fileKey (inputs ! i)) = Some e
           \<and> Loop e = (filepath_Base (inputs ! i) \<in> loops)"
  using final_entry[OF run i last] entry_at_eq[OF run i] by simp

theorem loop_flag_by_base_name_witness:
  "\<exists>st. combine example_system {''b.wav''} [''a.wav'', ''b.wav''] init_state = Inr st
     \<and> (1::nat) < length [''a.wav'', ''b.wav'']
     \<and> fileKey ([''a.wav'', ''b.wav''] ! 1) \<notin> fileKey ` set (drop (Suc 1) [''a.wav'', ''b.wav''])
     \<and> (\<exists>e. map_of (spritemap st) (fileKey ([''a.wav'', ''b.wav''] ! 1)) = Some e
           \<and> Loop e = (filepath_Base ([''a.wav'', ''b.wav''] ! 1) \<in> {''b.wav''}))"
proof -
  from example_run[of "{''b.wav''}"] obtain st
    where run: "combine example_system {''b.wav''} [''a.wav'', ''b.wav''] init_state = Inr st"
    by simp
  have i: "(1::nat) < length [''a.wav'', ''b.wav'']" by simp
  have last: "fileKey ([''a.wav'', ''b.wav''] ! 1) \<notin> fileKey ` set (drop (Suc 1) [''a.wav'', ''b.wav''])"
    by simp
  from loop_flag_by_base_name[OF run i last] run i last show ?thesis by blast
qed

text \<open>
  C7. When the expanded input list is empty, the program prints its usage and exits with
  status 1 before the loop: whatever the environment, nothing is created or written.
\<close>

theorem empty_input_usage_exit:
  assumes "collect_inputs sys args [] = Inr []"
  shows "main sys outBase loops args = \<lparr>exit = Some UsageExit, effects = []\<rparr>"
  using assms by (simp add: main_def)

theorem empty_input_usage_exit_witness:
  "collect_inputs example_system [] [] = Inr []
   \<and> main example_system ''sprite'' {} [] = \<lparr>exit = Some UsageExit, effects = []\<rparr>"
proof -
  have h: "collect_inputs example_system [] [] = Inr []" by simp
  from empty_input_usage_exit[OF h] h show ?thesis by blast
qed

text \<open>
  C8. The second program defers the removal of each resampled file to the return of
  \<open>main\<close>, and every error after that leaves through \<open>log.Fatalf\<close>, which runs no deferred
  call. Here the second input is resampled into a temporary file and the third input does
  not decode: the run ends with the temporary file created and never removed.
\<close>

theorem temp_file_left_behind:
  "main2 example_system ''sprite'' {} ''wav'' [''a.wav'', ''fast.wav'', ''broken.wav''] =
     \<lparr>exit = Some (FailedToDecode ''broken.wav''),
      effects = [Resample ''fast.wav'' 4 ''fast.wav_resampled_4.wav'']\<rparr>"
  by (simp add: model_defs model2_defs)

text \<open>
  C9. When the first input decodes to \<open>b0\<close>: every event of the run that creates the
  encoder carries the sample rate, bit depth and channel count of \<open>b0\<close>, and format 1;
  the buffer handed to the encoder has the format and bit depth of \<open>b0\<close>; and after the
  first clip and any number of further clips, the output buffer still has the format and
  bit depth of \<open>b0\<close> and the reference rate is that of \<open>b0\<close>.
\<close>

theorem format_fixed_by_first_clip:
  assumes inputs: "collect_inputs sys args [] = Inr (f0 # rest)"
    and first: "decode sys f0 = Inr b0"
    and ev: "ev \<in> set (effects (main sys outBase loops args))"
    and n: "n \<le> length rest"
  shows "(case ev of
            NewEncoder p r d c a \<Rightarrow>
              r = SampleRate (Format b0) \<and> d = SourceBitDepth b0
              \<and> c = NumChannels (Format b0) \<and> a = 1
          | EncoderWrite ob \<Rightarrow> Format ob = Format b0 \<and> SourceBitDepth ob = SourceBitDepth b0
          | _ \<Rightarrow> True)
       \<and> (\<exists>s ob. combine sys loops (f0 # take n rest) init_state = Inr s
             \<and> outBuf s = Some ob
             \<and> Format ob = Format b0
             \<and> SourceBitDepth ob = SourceBitDepth b0
             \<and> sampleRate s = SampleRate (Format b0))"
proof -
  from ev inputs obtain st where run: "combine sys loops (f0 # rest) init_state = Inr st"
    and w: "ev \<in> set (effects (write_outputs sys outBase st))"
    by (auto simp: main_def split: sum.splits)
  from first_clip_fixes[OF run first] obtain ob where ob: "outBuf st = Some ob"
    "Format ob = Format b0" "SourceBitDepth ob = SourceBitDepth b0"
    "sampleRate st = SampleRate (Format b0)"
    by auto
  from write_outputs_events[OF w ob(1)] ob have enc: "case ev of
            NewEncoder p r d c a \<Rightarrow>
              r = SampleRate (Format b0) \<and> d = SourceBitDepth b0
              \<and> c = NumChannels (Format b0) \<and> a = 1
          | EncoderWrite ob \<Rightarrow> Format ob = Format b0 \<and> SourceBitDepth ob = SourceBitDepth b0
          | _ \<Rightarrow> True"
    by (auto split: event.splits)
  from run obtain s where p: "combine sys loops (take (Suc n) (f0 # rest)) init_state = Inr s"
    by (rule combine_take)
  then have p': "combine sys loops (f0 # take n rest) init_state = Inr s" by simp
  from first_clip_fixes[OF p' first] p' enc show ?thesis by blast
qed

theorem format_fixed_by_first_clip_witness:
  "collect_inputs example_system [''a.wav'', ''stereo.wav''] [] = Inr (''a.wav'' # [''stereo.wav''])
   \<and> decode example_system ''a.wav'' =
        Inr \<lparr>Format = \<lparr>NumChannels = 1, SampleRate = 4\<rparr>, Data = [1, 2, 3, 4], SourceBitDepth = 16\<rparr>
   \<and> NewEncoder ''sprite.wav'' 4 16 1 1
        \<in> set (effects (main example_system ''sprite'' {} [''a.wav'', ''stereo.wav'']))
   \<and> (1::nat) \<le> length [''stereo.wav'']
   \<and> (\<exists>s ob. combine example_system {} (''a.wav'' # take 1 [''stereo.wav'']) init_state = Inr s
         \<and> outBuf s = Some ob
         \<and> Format ob = \<lparr>NumChannels = 1, SampleRate = 4\<rparr>
         \<and> SourceBitDepth ob = 16
         \<and> sampleRate s = 4)"
proof -
  let ?b0 = "\<lparr>Format = \<lparr>NumChannels = 1, SampleRate = 4\<rparr>, Data = [1, 2, 3, 4], SourceBitDepth = 16\<rparr>"
  have inputs: "collect_inputs example_system [''a.wav'', ''stereo.wav''] [] = Inr (''a.wav'' # [''stereo.wav''])"
    by (simp add: example_system_def)
  have first: "decode example_system ''a.wav'' = Inr ?b0" by (simp add: model_defs)
  have ev: "NewEncoder ''sprite.wav'' 4 16 1 1
        \<in> set (effects (main example_system ''sprite'' {} [''a.wav'', ''stereo.wav'']))"
    by (simp add: model_defs)
  have n: "(1::nat) \<le> length [''stereo.wav'']" by simp
  from format_fixed_by_first_clip[OF inputs first ev n]
  have "\<exists>s ob. combine example_system {} (''a.wav'' # take 1 [''stereo.wav'']) init_state = Inr s
         \<and> outBuf s = Some ob
         \<and> Format ob = \<lparr>NumChannels = 1, SampleRate = 4\<rparr>
         \<and> SourceBitDepth ob = 16
         \<and> sampleRate s = 4"
    by simp
  with inputs first ev n show ?thesis by blast
qed

end
